theory Spec2Isabelle
  imports Complex_Main "HOL-Library.Multiset" "HOL-Library.Sublist"
begin

section \<open>Strings\<close>

text \<open>
  A JavaScript string is modelled as a \<open>string\<close>, one \<open>char\<close> per code unit. Every
  needle the program searches for is ASCII, and lower-casing never turns a non-ASCII code
  unit of the modelled range into an ASCII one, so \<open>toLowerCase\<close> is modelled on the
  letters \<open>A\<close> to \<open>Z\<close> and leaves the other code units as they are.
\<close>

definition toLowerCase_char :: "char \<Rightarrow> char" where
  "toLowerCase_char c =
     (case map_of (zip ''ABCDEFGHIJKLMNOPQRSTUVWXYZ'' ''abcdefghijklmnopqrstuvwxyz'') c of
        Some l \<Rightarrow> l
      | None \<Rightarrow> c)"

definition toLowerCase :: "string \<Rightarrow> string" where
  "toLowerCase s = map toLowerCase_char s"

fun startsWith :: "string \<Rightarrow> string \<Rightarrow> bool" where
  "startsWith s [] = True"
| "startsWith [] (p # ps) = False"
| "startsWith (c # cs) (p # ps) = (c = p \<and> startsWith cs ps)"

definition endsWith :: "string \<Rightarrow> string \<Rightarrow> bool" where
  "endsWith s suf = startsWith (rev s) (rev suf)"

text \<open>\<open>s.includes(sub)\<close>; \<open>includes\<close> is a keyword of Isabelle, hence the name.\<close>

fun str_includes :: "string \<Rightarrow> string \<Rightarrow> bool" where
  "str_includes [] sub = (sub = [])"
| "str_includes (c # cs) sub = (startsWith (c # cs) sub \<or> str_includes cs sub)"

text \<open>
  \<open>s.trim()\<close>: the white space and line terminators among the modelled code units are
  tab, line feed, vertical tab, form feed, carriage return, space and no-break space.
\<close>

definition is_space :: "char \<Rightarrow> bool" where
  "is_space c = (c \<in> set [CHR 0x09, CHR 0x0A, CHR 0x0B, CHR 0x0C, CHR 0x0D, CHR 0x20, CHR 0xA0])"

definition trim :: "string \<Rightarrow> string" where
  "trim s = rev (dropWhile is_space (rev (dropWhile is_space s)))"

section \<open>The retrying invoker: \<open>withRetry\<close> (server.ts)\<close>

text \<open>
  A value thrown by an attempt: an object whose \<open>status\<close> is a number or absent, whose
  \<open>response\<close> is an object with such a \<open>status\<close> or absent, and whose \<open>message\<close> is
  a string or absent.
\<close>

record js_response =
  resp_status :: "nat option"

record js_error =
  status :: "nat option"
  response :: "js_response option"
  message :: "string option"

text \<open>\<open>error.response && error.response.status\<close>\<close>

definition response_status :: "js_error \<Rightarrow> nat option" where
  "response_status e = (case response e of None \<Rightarrow> None | Some r \<Rightarrow> resp_status r)"

text \<open>
  \<open>error.status || (error.response && error.response.status)\<close>: the left operand wins
  when it is truthy, that is a number other than 0.
\<close>

definition error_status :: "js_error \<Rightarrow> nat option" where
  "error_status e =
     (case status e of
        Some n \<Rightarrow> if n \<noteq> 0 then Some n else response_status e
      | None \<Rightarrow> response_status e)"

text \<open>\<open>error.message?.toLowerCase() || ""\<close>\<close>

definition error_message :: "js_error \<Rightarrow> string" where
  "error_message e = (case message e of None \<Rightarrow> [] | Some m \<Rightarrow> toLowerCase m)"

text \<open>The condition of the \<open>if\<close> in the \<open>catch\<close> block of \<open>withRetry\<close>.\<close>

definition is_transient :: "js_error \<Rightarrow> bool" where
  "is_transient e =
     (error_status e = Some 503 \<or> error_status e = Some 429 \<or>
      str_includes (error_message e) ''503'' \<or>
      str_includes (error_message e) ''429'' \<or>
      str_includes (error_message e) ''demand'' \<or>
      str_includes (error_message e) ''rate exceeded'' \<or>
      str_includes (error_message e) ''quota'')"

text \<open>
  What a call of \<open>withRetry\<close> did: what it returned or threw (\<open>Inl None\<close> is the
  \<open>undefined\<close> that \<open>throw lastError\<close> throws when the loop body never ran), how often it
  called \<open>fn\<close>, and the delays it slept, in order.
\<close>

record 'a retry_run =
  outcome :: "js_error option + 'a"
  calls :: nat
  sleeps :: "nat list"

text \<open>
  The \<open>for\<close> loop. \<open>fn\<close> is called once per iteration, so its effect is the outcome of
  its call number \<open>i\<close>: \<open>Inl\<close> a thrown error, \<open>Inr\<close> a value.
\<close>

function retry_loop ::
  "(nat \<Rightarrow> js_error + 'a) \<Rightarrow> nat \<Rightarrow> nat \<Rightarrow> nat \<Rightarrow> js_error option \<Rightarrow> nat list \<Rightarrow> 'a retry_run"
where
  "retry_loop fn maxRetries baseDelay i lastError slept =
     (if i < maxRetries then
        (case fn i of
           Inr v \<Rightarrow> \<lparr>outcome = Inr v, calls = i + 1, sleeps = slept\<rparr>
         | Inl error \<Rightarrow>
             if is_transient error
             then retry_loop fn maxRetries baseDelay (i + 1) (Some error)
                    (slept @ [baseDelay * 2 ^ i])
             else \<lparr>outcome = Inl (Some error), calls = i + 1, sleeps = slept\<rparr>)
      else \<lparr>outcome = Inl lastError, calls = i, sleeps = slept\<rparr>)"
  by pat_completeness auto
termination
  by (relation "measure (\<lambda>(fn, maxRetries, baseDelay, i, lastError, slept). maxRetries - i)") auto

declare retry_loop.simps [simp del]

definition withRetry :: "(nat \<Rightarrow> js_error + 'a) \<Rightarrow> nat \<Rightarrow> nat \<Rightarrow> 'a retry_run" where
  "withRetry fn maxRetries baseDelay = retry_loop fn maxRetries baseDelay 0 None []"

text \<open>The defaults of the parameters: \<open>maxRetries = 5, baseDelay = 2000\<close>.\<close>

definition withRetry_default :: "(nat \<Rightarrow> js_error + 'a) \<Rightarrow> 'a retry_run" where
  "withRetry_default fn = withRetry fn 5 2000"

section \<open>JSON values and the response normalizer (server.ts, POST /api/analyze)\<close>

text \<open>
  A value as \<open>JSON.parse\<close> returns it. An object is the list of its own properties in
  their order; a number is modelled by its exact value, of which the program uses only
  whether it is zero.
\<close>

datatype json =
  JNull
| JBool bool
| JNum rat
| JStr string
| JArr "json list"
| JObj "(string \<times> json) list"

text \<open>JavaScript truthiness of a value (\<open>!v\<close> is its negation).\<close>

fun truthy :: "json \<Rightarrow> bool" where
  "truthy JNull = False"
| "truthy (JBool b) = b"
| "truthy (JNum n) = (n \<noteq> 0)"
| "truthy (JStr s) = (s \<noteq> [])"
| "truthy (JArr xs) = True"
| "truthy (JObj fs) = True"

text \<open>Truthiness of an expression that may be \<open>undefined\<close> (\<open>None\<close>).\<close>

definition truthy_opt :: "json option \<Rightarrow> bool" where
  "truthy_opt v = (case v of None \<Rightarrow> False | Some j \<Rightarrow> truthy j)"

text \<open>
  \<open>obj.k = v\<close> on the properties of an object: an existing property keeps its place
  and takes the value, a new one is added last.
\<close>

fun set_property :: "string \<Rightarrow> json \<Rightarrow> (string \<times> json) list \<Rightarrow> (string \<times> json) list" where
  "set_property k v [] = [(k, v)]"
| "set_property k v ((k', v') # fs) =
     (if k' = k then (k, v) # fs else (k', v') # set_property k v fs)"

text \<open>\<open>if (!result.k) result.k = d\<close>, where \<open>result.k\<close> reads the property \<open>k\<close>.\<close>

definition fill_default :: "string \<Rightarrow> json \<Rightarrow> (string \<times> json) list \<Rightarrow> (string \<times> json) list" where
  "fill_default k d fs = (if \<not> truthy_opt (map_of fs k) then set_property k d fs else fs)"

definition default_data_summary :: json where
  "default_data_summary =
     JObj [(''detected_entities'', JArr []), (''key_metrics'', JArr []),
           (''relationships'', JArr [])]"

definition default_risk_heatmap :: json where
  "default_risk_heatmap = JObj [(''title'', JStr ''Risk Distribution''), (''data'', JArr [])]"

definition default_operational_efficiency :: json where
  "default_operational_efficiency =
     JObj [(''title'', JStr ''Operational Efficiency''), (''metrics'', JArr [])]"

definition default_geographic_matrix :: json where
  "default_geographic_matrix =
     JObj [(''title'', JStr ''Geographic Opportunity Matrix''), (''data'', JArr [])]"

text \<open>The eight fields the handler fills, with their defaults, in the order of the code.\<close>

definition defaults :: "(string \<times> json) list" where
  "defaults =
     [(''data_summary'', default_data_summary),
      (''insights'', JArr []),
      (''anomalies'', JArr []),
      (''risk_analysis'', JArr []),
      (''recommendations'', JArr []),
      (''risk_heatmap'', default_risk_heatmap),
      (''operational_efficiency'', default_operational_efficiency),
      (''geographic_matrix'', default_geographic_matrix)]"

text \<open>The eight \<open>if\<close> statements after \<open>JSON.parse\<close>, on the properties of an object.\<close>

definition normalize_fields :: "(string \<times> json) list \<Rightarrow> (string \<times> json) list" where
  "normalize_fields fs = fold (\<lambda>(k, d). fill_default k d) defaults fs"

text \<open>
  What the program takes from the JavaScript runtime: \<open>JSON.parse\<close> (\<open>Inl\<close> the
  \<open>SyntaxError\<close> it throws), \<open>JSON.stringify\<close>, and the text of a number.
\<close>

record runtime =
  JSON_parse :: "string \<Rightarrow> js_error + json"
  JSON_stringify :: "json \<Rightarrow> string"
  Number_toString :: "rat \<Rightarrow> string"

text \<open>
  \<open>new Error(m)\<close>, and the \<open>TypeError\<close> the runtime throws with message \<open>m\<close>: an error
  object with a message and no status.
\<close>

definition new_Error :: "string \<Rightarrow> js_error" where
  "new_Error m = \<lparr>status = None, response = None, message = Some m\<rparr>"

text \<open>The text of a primitive value inside the message of a \<open>TypeError\<close>, in quotes.\<close>

definition quoted :: "string \<Rightarrow> string" where
  "quoted s = [CHR 0x27] @ s @ [CHR 0x27]"

text \<open>
  The eight statements on any parsed value, giving the value that \<open>res.json\<close> then
  serialises. Reading a property of \<open>null\<close> throws. A boolean, number or string has no
  such property, and the assignment to it throws (the file is a module, hence strict
  code). An array takes the defaults as named properties, which its serialisation leaves
  out.
\<close>

fun normalize :: "runtime \<Rightarrow> json \<Rightarrow> js_error + json" where
  "normalize rt (JObj fs) = Inr (JObj (normalize_fields fs))"
| "normalize rt (JArr xs) = Inr (JArr xs)"
| "normalize rt JNull =
     Inl (new_Error (''Cannot read properties of null (reading '' @ quoted ''data_summary'' @ '')''))"
| "normalize rt (JBool b) =
     Inl (new_Error (''Cannot create property '' @ quoted ''data_summary'' @ '' on boolean '' @
                     quoted (if b then ''true'' else ''false'')))"
| "normalize rt (JNum n) =
     Inl (new_Error (''Cannot create property '' @ quoted ''data_summary'' @ '' on number '' @
                     quoted (Number_toString rt n)))"
| "normalize rt (JStr s) =
     Inl (new_Error (''Cannot create property '' @ quoted ''data_summary'' @ '' on string '' @
                     quoted s))"

section \<open>The analysis endpoint: POST /api/analyze (server.ts)\<close>

text \<open>The two environment variables the handler reads; \<open>None\<close> is an unset variable.\<close>

record env =
  COGAPI3 :: "string option"
  GEMINI_API_KEY :: "string option"

text \<open>The fields of \<open>req.body\<close> the handler reads; \<open>None\<close> is a missing field.\<close>

record analyze_request =
  dataset :: "json option"
  query :: "json option"
  req_context :: "json option"

text \<open>
  The body of a response: the object \<open>{error: message}\<close>, another JSON value, or none.
\<close>

datatype response_body = ErrorBody string | ResultBody json | NoBody

record http_response =
  code :: nat
  body :: response_body

text \<open>\<open>process.env.COGAPI3 || process.env.GEMINI_API_KEY\<close>: an empty string is falsy.\<close>

definition apiKey :: "env \<Rightarrow> string option" where
  "apiKey ev =
     (case COGAPI3 ev of
        Some k \<Rightarrow> if k \<noteq> [] then Some k else GEMINI_API_KEY ev
      | None \<Rightarrow> GEMINI_API_KEY ev)"

text \<open>\<open>!apiKey || apiKey.trim() === ""\<close>\<close>

definition apiKey_missing :: "env \<Rightarrow> bool" where
  "apiKey_missing ev = (case apiKey ev of None \<Rightarrow> True | Some k \<Rightarrow> k = [] \<or> trim k = [])"

text \<open>
  \<open>process.env.COGAPI3 ? 'COGAPI3' : process.env.GEMINI_API_KEY ? 'GEMINI_API_KEY' : 'Unknown'\<close>
\<close>

definition keySource :: "env \<Rightarrow> string" where
  "keySource ev =
     (if COGAPI3 ev \<noteq> None \<and> COGAPI3 ev \<noteq> Some [] then ''COGAPI3''
      else if GEMINI_API_KEY ev \<noteq> None \<and> GEMINI_API_KEY ev \<noteq> Some [] then ''GEMINI_API_KEY''
      else ''Unknown'')"

text \<open>
  \<open>dataset.slice(0, 100).map(...)\<close>, of which the model keeps the rows taken and whether
  it throws: an array has both methods, a string has \<open>slice\<close> and no \<open>map\<close>, another
  value has no callable \<open>slice\<close>. The prompt built from the rows goes to the reasoning
  service, whose replies are a parameter of the model.
\<close>

fun prompt_rows :: "json \<Rightarrow> js_error + json list" where
  "prompt_rows (JArr rows) = Inr (take 100 rows)"
| "prompt_rows (JStr s) = Inl (new_Error ''dataset.slice(...).map is not a function'')"
| "prompt_rows v = Inl (new_Error ''dataset.slice is not a function'')"

text \<open>\<open>if (!response.text) throw new Error("Model returned empty response")\<close>\<close>

definition response_text :: "string option \<Rightarrow> js_error + string" where
  "response_text text =
     (case text of
        None \<Rightarrow> Inl (new_Error ''Model returned empty response'')
      | Some t \<Rightarrow> if t = [] then Inl (new_Error ''Model returned empty response'') else Inr t)"

text \<open>
  The \<open>try\<close> block after the two guards, for a dataset \<open>d\<close>. \<open>fn\<close> gives the outcome of
  each call of \<open>ai.models.generateContent\<close>: a thrown error, or the \<open>text\<close> of the
  response (\<open>None\<close> when it has none). \<open>Inl None\<close> is a thrown \<open>undefined\<close>.
\<close>

definition analyze_try ::
  "runtime \<Rightarrow> json \<Rightarrow> (nat \<Rightarrow> js_error + string option) \<Rightarrow> js_error option + json"
where
  "analyze_try rt d fn =
     (case prompt_rows d of
        Inl e \<Rightarrow> Inl (Some e)
      | Inr rows \<Rightarrow>
          (case outcome (withRetry_default fn) of
             Inl thrown \<Rightarrow> Inl thrown
           | Inr text \<Rightarrow>
               (case response_text text of
                  Inl e \<Rightarrow> Inl (Some e)
                | Inr t \<Rightarrow>
                    (case JSON_parse rt t of
                       Inl e \<Rightarrow> Inl (Some e)
                     | Inr result \<Rightarrow>
                         (case normalize rt result of
                            Inl e \<Rightarrow> Inl (Some e)
                          | Inr r \<Rightarrow> Inr r)))))"

text \<open>
  \<open>error.status || (error.response && error.response.status) || 500\<close>
\<close>

definition catch_status :: "js_error \<Rightarrow> nat" where
  "catch_status e = (case error_status e of Some n \<Rightarrow> if n \<noteq> 0 then n else 500 | None \<Rightarrow> 500)"

text \<open>\<open>error.message || "Failed to analyze data"\<close>\<close>

definition message_or_default :: "js_error \<Rightarrow> string" where
  "message_or_default e =
     (case message e of
        Some m \<Rightarrow> if m \<noteq> [] then m else ''Failed to analyze data''
      | None \<Rightarrow> ''Failed to analyze data'')"

definition invalid_key_message :: "env \<Rightarrow> string" where
  "invalid_key_message ev =
     ''The Gemini API key is invalid. Current key source: '' @ keySource ev @
     ''. Please update your environment variables in AI Studio.''"

definition rate_limit_message :: string where
  "rate_limit_message =
     ''Gemini API rate limit exceeded. The system is currently under high load. Please wait a few moments and try again.''"

text \<open>The two conditions of the \<open>catch\<close> block of the handler, and the block.\<close>

definition invalid_key :: "js_error \<Rightarrow> bool" where
  "invalid_key e = (catch_status e = 400 \<and> str_includes (error_message e) ''api key not valid'')"

definition rate_limited :: "js_error \<Rightarrow> bool" where
  "rate_limited e =
     (catch_status e = 429 \<or> str_includes (error_message e) ''rate exceeded'' \<or>
      str_includes (error_message e) ''quota'')"

text \<open>
  \<open>res.status(c).json({ error: m })\<close> for a status \<open>c\<close> taken from the error. The
  framework hands the status to the HTTP library, which throws a \<open>RangeError\<close> for a
  status outside 100 to 999: then no answer is sent (\<open>None\<close>). A response of an
  informational status, of 204, 205 or 304 is sent without its body.
\<close>

definition bodyless :: "nat \<Rightarrow> bool" where
  "bodyless c = ((100 \<le> c \<and> c \<le> 199) \<or> c = 204 \<or> c = 205 \<or> c = 304)"

definition send_error :: "nat \<Rightarrow> string \<Rightarrow> http_response option" where
  "send_error c m =
     (if c < 100 \<or> 999 < c then None
      else if bodyless c then Some \<lparr>code = c, body = NoBody\<rparr>
      else Some \<lparr>code = c, body = ErrorBody m\<rparr>)"

definition analyze_catch :: "env \<Rightarrow> js_error \<Rightarrow> http_response option" where
  "analyze_catch ev e =
     (if invalid_key e then Some \<lparr>code = 400, body = ErrorBody (invalid_key_message ev)\<rparr>
      else if rate_limited e then Some \<lparr>code = 429, body = ErrorBody rate_limit_message\<rparr>
      else send_error (catch_status e) (message_or_default e))"

text \<open>
  The handler. \<open>None\<close> is the case of no response: the \<open>catch\<close> block itself throws,
  when it reads \<open>status\<close> of a thrown \<open>undefined\<close> or when it sends a status that is
  refused.
\<close>

definition analyze ::
  "runtime \<Rightarrow> env \<Rightarrow> analyze_request \<Rightarrow> (nat \<Rightarrow> js_error + string option) \<Rightarrow> http_response option"
where
  "analyze rt ev req fn =
     (case dataset req of
        None \<Rightarrow> Some \<lparr>code = 400, body = ErrorBody ''Dataset is required''\<rparr>
      | Some d \<Rightarrow>
          if \<not> truthy d then Some \<lparr>code = 400, body = ErrorBody ''Dataset is required''\<rparr>
          else if apiKey_missing ev then
            Some \<lparr>code = 500,
                  body = ErrorBody ''Gemini API key is not configured. Please set COGAPI3 or GEMINI_API_KEY in the environment variables.''\<rparr>
          else
            (case analyze_try rt d fn of
               Inr result \<Rightarrow> Some \<lparr>code = 200, body = ResultBody result\<rparr>
             | Inl None \<Rightarrow> None
             | Inl (Some e) \<Rightarrow> analyze_catch ev e))"

section \<open>The report store: the \<open>reports\<close> table and its two routes (server.ts)\<close>

text \<open>
  A row of \<open>reports\<close>. Every column is \<open>TEXT\<close> and may hold \<open>NULL\<close> (\<open>None\<close>), the
  primary key too, since the table is a rowid table. \<open>created_at\<close> is the timestamp the
  engine assigns (\<open>DEFAULT CURRENT_TIMESTAMP\<close>), modelled as a count of seconds.
\<close>

record report_row =
  row_id :: "string option"
  row_user_id :: "string option"
  row_query :: "string option"
  row_context :: "string option"
  row_result :: "string option"
  created_at :: nat

text \<open>
  The database: the identifiers of the rows of \<open>users\<close>, the rows of \<open>reports\<close> in the
  order of their insertion, and whether the connection enforces foreign keys.
\<close>

record database =
  users :: "string option list"
  reports :: "report_row list"
  foreign_keys :: bool

datatype sqlite_error = SQLITE_CONSTRAINT_PRIMARYKEY | SQLITE_CONSTRAINT_FOREIGNKEY

text \<open>
  \<open>INSERT INTO reports (id, user_id, query, context, result) VALUES (?, ?, ?, ?, ?)\<close> at
  the time \<open>now\<close>. \<open>id TEXT PRIMARY KEY\<close> refuses an identifier that a row already has
  (\<open>NULL\<close> equals nothing); \<open>FOREIGN KEY(user_id) REFERENCES users(id)\<close>, when enforced,
  refuses a user identifier that is not \<open>NULL\<close> and that no row of \<open>users\<close> has.
\<close>

definition insert_report ::
  "database \<Rightarrow> nat \<Rightarrow> string option \<Rightarrow> string option \<Rightarrow> string option \<Rightarrow> string option \<Rightarrow>
   string option \<Rightarrow> sqlite_error + database"
where
  "insert_report db now i u q c r =
     (if i \<noteq> None \<and> i \<in> set (map row_id (reports db)) then Inl SQLITE_CONSTRAINT_PRIMARYKEY
      else if foreign_keys db \<and> u \<noteq> None \<and> u \<notin> set (users db) then
        Inl SQLITE_CONSTRAINT_FOREIGNKEY
      else
        Inr (db\<lparr>reports := reports db @
               [\<lparr>row_id = i, row_user_id = u, row_query = q, row_context = c, row_result = r,
                 created_at = now\<rparr>]\<rparr>))"

text \<open>
  The body of POST /api/reports: four strings (\<open>None\<close> when missing or \<open>null\<close>) and the
  result, any JSON value or missing.
\<close>

record report_request =
  body_id :: "string option"
  body_userId :: "string option"
  body_query :: "string option"
  body_context :: "string option"
  body_result :: "json option"

text \<open>
  POST /api/reports: what the handler answers and the database it leaves. An error of
  \<open>stmt.run\<close> leaves the handler uncaught (\<open>Inl\<close>; the framework then answers 500).
  \<open>JSON.stringify\<close> of a missing result is \<open>undefined\<close>, which is bound as \<open>NULL\<close>.
\<close>

definition post_reports ::
  "runtime \<Rightarrow> database \<Rightarrow> nat \<Rightarrow> report_request \<Rightarrow> (sqlite_error + http_response) \<times> database"
where
  "post_reports rt db now req =
     (case insert_report db now (body_id req) (body_userId req) (body_query req)
             (body_context req) (map_option (JSON_stringify rt) (body_result req)) of
        Inl err \<Rightarrow> (Inl err, db)
      | Inr db' \<Rightarrow>
          (Inr \<lparr>code = 200, body = ResultBody (JObj [(''success'', JBool True)])\<rparr>, db'))"

text \<open>
  \<open>ORDER BY created_at DESC\<close> as the engine runs it under a \<open>LIMIT\<close>: the rows are sorted
  on \<open>created_at\<close>, descending, and on the sequence number of the scan for equal
  \<open>created_at\<close>; the table is scanned in the order of its rowids, which is the order of
  insertion. That is a stable sort: insertion sort on the reversed rows, reversed.
\<close>

definition stable_desc :: "report_row list \<Rightarrow> report_row list" where
  "stable_desc rows = rev (sort_key created_at (rev rows))"

text \<open>\<open>SELECT * FROM reports WHERE user_id = ? ORDER BY created_at DESC LIMIT 10\<close>\<close>

definition listByUser :: "database \<Rightarrow> string \<Rightarrow> report_row list" where
  "listByUser db userId =
     take 10 (stable_desc (filter (\<lambda>r. row_user_id r = Some userId) (reports db)))"

text \<open>Rows in descending order of \<open>created_at\<close>.\<close>

definition descending :: "report_row list \<Rightarrow> bool" where
  "descending rows = sorted_wrt (\<lambda>a b. created_at b \<le> created_at a) rows"

text \<open>
  \<open>JSON.parse(r.result)\<close>; a \<open>NULL\<close> result is \<open>null\<close>, whose text is parsed. The
  \<open>map\<close> over the rows stops at the first row whose result does not parse.
\<close>

definition parse_result :: "runtime \<Rightarrow> report_row \<Rightarrow> js_error + json" where
  "parse_result rt r =
     (case row_result r of None \<Rightarrow> JSON_parse rt ''null'' | Some t \<Rightarrow> JSON_parse rt t)"

fun parse_rows :: "runtime \<Rightarrow> report_row list \<Rightarrow> js_error + (report_row \<times> json) list" where
  "parse_rows rt [] = Inr []"
| "parse_rows rt (r # rs) =
     (case parse_result rt r of
        Inl e \<Rightarrow> Inl e
      | Inr j \<Rightarrow> (case parse_rows rt rs of Inl e \<Rightarrow> Inl e | Inr js \<Rightarrow> Inr ((r, j) # js)))"

text \<open>
  GET /api/reports, for the \<open>userId\<close> of the query string (\<open>None\<close> when missing): the
  rows with their results parsed, the answer 400, or the error that \<open>JSON.parse\<close> throws
  (uncaught; the framework then answers 500).
\<close>

datatype reports_reply =
  ReportList "(report_row \<times> json) list"
| BadRequest string
| Thrown js_error

definition get_reports :: "runtime \<Rightarrow> database \<Rightarrow> string option \<Rightarrow> reports_reply" where
  "get_reports rt db userId =
     (case userId of
        None \<Rightarrow> BadRequest ''userId required''
      | Some u \<Rightarrow>
          if u = [] then BadRequest ''userId required''
          else
            (case parse_rows rt (listByUser db u) of
               Inl e \<Rightarrow> Thrown e
             | Inr rs \<Rightarrow> ReportList rs))"

section \<open>The client: sign-in handoff and \<open>runAnalysis\<close> (App component)\<close>

text \<open>
  What a \<open>fetch\<close> gives the client: a rejection, or a response with its status and its
  body as the client reads it: JSON (the content type says so and \<open>response.json()\<close>
  resolves), JSON that does not parse (\<open>response.json()\<close> rejects), or text.
\<close>

datatype reply_body = JsonBody json | BadJsonBody js_error | TextBody string

record reply =
  reply_status :: nat
  reply_body :: reply_body

datatype fetched = Rejected js_error | Resolved reply

text \<open>\<open>response.ok\<close>\<close>

definition ok :: "reply \<Rightarrow> bool" where
  "ok r = (200 \<le> reply_status r \<and> reply_status r \<le> 299)"

text \<open>
  The requests the client sends: the analysis of a sample of rows, a report to save (the
  user's \<open>id\<close> and the result; its identifier is made from the clock), and the history
  of a user.
\<close>

datatype request =
  PostAnalyze "json list"
| PostReport "json option" json
| GetReports "json option"

text \<open>
  The item \<open>cognitia_user\<close> of \<open>localStorage\<close>: \<open>JSON.stringify\<close> of a value, or the text
  \<open>undefined\<close> that \<open>setItem\<close> stores for \<open>JSON.stringify(undefined)\<close>.
\<close>

datatype stored_item = Stringified json | StringifiedUndefined

text \<open>
  The state of the component that the two functions read and write, with the console and
  the requests sent. A state variable holds a JSON value or \<open>undefined\<close> (\<open>None\<close>).
\<close>

record client =
  data :: "json list"
  result :: "json option"
  error :: "string option"
  isAnalyzing :: bool
  user :: "json option"
  history :: json
  stored_user :: "stored_item option"
  console :: "string list"
  requests :: "request list"

text \<open>
  \<open>v.k\<close> for one of the names the client reads (\<open>id\<close>, \<open>error\<close>, \<open>type\<close>, \<open>user\<close>), none
  of which a string, a number, a boolean or an array has: reading it of \<open>undefined\<close> or
  \<open>null\<close> throws.
\<close>

fun property :: "string \<Rightarrow> json option \<Rightarrow> js_error + json option" where
  "property k None =
     Inl (new_Error (''Cannot read properties of undefined (reading '' @ quoted k @ '')''))"
| "property k (Some JNull) =
     Inl (new_Error (''Cannot read properties of null (reading '' @ quoted k @ '')''))"
| "property k (Some (JObj fs)) = Inr (map_of fs k)"
| "property k (Some v) = Inr None"

text \<open>\<open>v?.k\<close>: \<open>undefined\<close> where \<open>v.k\<close> would throw.\<close>

definition optional_property :: "string \<Rightarrow> json option \<Rightarrow> json option" where
  "optional_property k v = (case property k v of Inl e \<Rightarrow> None | Inr p \<Rightarrow> p)"

text \<open>\<open>fetchHistory(userId)\<close>, given what its \<open>fetch\<close> gives.\<close>

definition fetchHistory :: "client \<Rightarrow> json option \<Rightarrow> fetched \<Rightarrow> client" where
  "fetchHistory st userId f =
     (let st1 = st\<lparr>requests := requests st @ [GetReports userId]\<rparr> in
      case f of
        Rejected e \<Rightarrow> st1\<lparr>console := console st1 @ [''Fetch history failed'']\<rparr>
      | Resolved r \<Rightarrow>
          if ok r then
            (case reply_body r of
               JsonBody d \<Rightarrow> st1\<lparr>history := d\<rparr>
             | BadJsonBody e \<Rightarrow> st1\<lparr>console := console st1 @ [''Fetch history failed'']\<rparr>
             | TextBody t \<Rightarrow> st1)
          else st1)"

text \<open>The test of the origin in \<open>handleMessage\<close>.\<close>

definition origin_allowed :: "string \<Rightarrow> bool" where
  "origin_allowed origin = (endsWith origin ''.run.app'' \<or> str_includes origin ''localhost'')"

text \<open>
  \<open>handleMessage(event)\<close>, for \<open>event.origin\<close> and \<open>event.data\<close>, given what the \<open>fetch\<close>
  of the history gives. When \<open>u.id\<close> throws, the handler ends there, after the two
  writes.
\<close>

definition handleMessage :: "client \<Rightarrow> string \<Rightarrow> json option \<Rightarrow> fetched \<Rightarrow> client" where
  "handleMessage st origin msg f =
     (if \<not> endsWith origin ''.run.app'' \<and> \<not> str_includes origin ''localhost'' then st
      else if optional_property ''type'' msg = Some (JStr ''OAUTH_AUTH_SUCCESS'') then
        (let u = optional_property ''user'' msg;
             st1 = st\<lparr>user := u\<rparr>;
             st2 = st1\<lparr>stored_user :=
                     Some (case u of None \<Rightarrow> StringifiedUndefined | Some j \<Rightarrow> Stringified j)\<rparr>
         in case property ''id'' u of
              Inl e \<Rightarrow> st2
            | Inr i \<Rightarrow> fetchHistory st2 i f)
      else st)"

definition high_demand_message :: string where
  "high_demand_message =
     ''The Intelligence Engine is currently experiencing high demand. Please wait 30-60 seconds and try again.''"

text \<open>
  The outer \<open>catch\<close> and \<open>finally\<close> of \<open>runAnalysis\<close>: the error is written to the
  console and its message (or the default) becomes the error shown.
\<close>

definition analysis_failed :: "client \<Rightarrow> js_error \<Rightarrow> client" where
  "analysis_failed st e =
     st\<lparr>console := console st @
           [case message e of None \<Rightarrow> [] | Some m \<Rightarrow> m],
        error := Some (case message e of
                         None \<Rightarrow> ''An unexpected error occurred during analysis.''
                       | Some m \<Rightarrow>
                           if m \<noteq> [] then m
                           else ''An unexpected error occurred during analysis.''),
        isAnalyzing := False\<rparr>"

text \<open>
  The error thrown for a response that is not \<open>ok\<close>:
  \<open>response.status === 429 || json.error?.toLowerCase().includes("rate exceeded")\<close>
  chooses the message; \<open>toLowerCase\<close> is a method of strings only.
\<close>

definition not_ok_error :: "nat \<Rightarrow> json \<Rightarrow> js_error" where
  "not_ok_error st_code j =
     (if st_code = 429 then new_Error high_demand_message
      else
        (case property ''error'' (Some j) of
           Inl e \<Rightarrow> e
         | Inr None \<Rightarrow> new_Error ''Intelligence Engine failed to process data.''
         | Inr (Some JNull) \<Rightarrow> new_Error ''Intelligence Engine failed to process data.''
         | Inr (Some (JStr m)) \<Rightarrow>
             if str_includes (toLowerCase m) ''rate exceeded'' then new_Error high_demand_message
             else if m \<noteq> [] then new_Error m
             else new_Error ''Intelligence Engine failed to process data.''
         | Inr (Some v) \<Rightarrow> new_Error ''json.error?.toLowerCase is not a function''))"

text \<open>
  The inner \<open>try\<close> of \<open>runAnalysis\<close>, entered when a user is present: the report is
  posted; a rejection is written to the console, any response is followed by
  \<open>fetchHistory\<close>.
\<close>

definition save_report :: "client \<Rightarrow> json \<Rightarrow> fetched \<Rightarrow> fetched \<Rightarrow> client" where
  "save_report st j saved f =
     (let uid = optional_property ''id'' (user st);
          st1 = st\<lparr>requests := requests st @ [PostReport uid j]\<rparr>
      in case saved of
           Rejected e \<Rightarrow> st1\<lparr>console := console st1 @ [''Failed to save report'']\<rparr>
         | Resolved r \<Rightarrow> fetchHistory st1 uid f)"

text \<open>The part of \<open>runAnalysis\<close> after the body of the response has been read as \<open>j\<close>.\<close>

definition analysis_received :: "client \<Rightarrow> reply \<Rightarrow> json \<Rightarrow> fetched \<Rightarrow> fetched \<Rightarrow> client" where
  "analysis_received st r j saved f =
     (if \<not> ok r then analysis_failed st (not_ok_error (reply_status r) j)
      else
        (let st1 = st\<lparr>result := Some j\<rparr>;
             st2 = (if truthy_opt (user st1) then save_report st1 j saved f else st1)
         in st2\<lparr>isAnalyzing := False\<rparr>))"

text \<open>
  \<open>runAnalysis()\<close>, given what the three calls of \<open>fetch\<close> give: the analysis, the
  saving of the report, and the history.
\<close>

definition runAnalysis :: "client \<Rightarrow> fetched \<Rightarrow> fetched \<Rightarrow> fetched \<Rightarrow> client" where
  "runAnalysis st analysed saved f =
     (if data st = [] then st
      else
        (let st1 = st\<lparr>isAnalyzing := True, error := None,
                       requests := requests st @ [PostAnalyze (take 500 (data st))]\<rparr>
         in case analysed of
              Rejected e \<Rightarrow> analysis_failed st1 e
            | Resolved r \<Rightarrow>
                (case reply_body r of
                   BadJsonBody e \<Rightarrow> analysis_failed st1 e
                 | JsonBody j \<Rightarrow> analysis_received st1 r j saved f
                 | TextBody t \<Rightarrow>
                     analysis_received st1 r
                       (JObj [(''error'',
                               JStr (if t \<noteq> [] then t else ''An unexpected error occurred.''))])
                       saved f)))"

text \<open>
  A response of the server as the client reads it: \<open>res.json\<close> sends JSON, an error as
  the object \<open>{error: message}\<close>.
\<close>

definition sent :: "http_response \<Rightarrow> fetched" where
  "sent resp =
     Resolved \<lparr>reply_status = code resp,
               reply_body = (case body resp of
                               ErrorBody m \<Rightarrow> JsonBody (JObj [(''error'', JStr m)])
                             | ResultBody j \<Rightarrow> JsonBody j
                             | NoBody \<Rightarrow> TextBody [])\<rparr>"

section \<open>The classification of failures in the words of the specification\<close>




section \<open>The trusted origins in the words of the specification\<close>

text \<open>
  The specification trusts a message whose origin is the expected application host or a
  local-development host. The host of an origin \<open>scheme://host:port\<close> is what stands
  between the scheme and the port; a local-development host is \<open>localhost\<close> or the
  loopback address.
\<close>

definition origin_host :: "string \<Rightarrow> string" where
  "origin_host origin =
     takeWhile (\<lambda>c. c \<noteq> CHR '':'')
       (if startsWith origin ''https://'' then drop 8 origin
        else if startsWith origin ''http://'' then drop 7 origin
        else origin)"

definition spec_local_development_host :: "string \<Rightarrow> bool" where
  "spec_local_development_host h = (h = ''localhost'' \<or> h = ''127.0.0.1'')"

definition spec_trusted_origin :: "string \<Rightarrow> string \<Rightarrow> bool" where
  "spec_trusted_origin app_host origin =
     (origin_host origin = app_host \<or> spec_local_development_host (origin_host origin))"

section \<open>Inputs of the examples\<close>

text \<open>An operation that throws the same error at every call.\<close>

definition always_throws :: "js_error \<Rightarrow> nat \<Rightarrow> js_error + string option" where
  "always_throws e i = Inl e"


text \<open>An operation that returns the text \<open>t\<close> at every call.\<close>

definition always_returns :: "string \<Rightarrow> nat \<Rightarrow> js_error + string option" where
  "always_returns t i = Inr (Some t)"

definition too_many_requests :: js_error where
  "too_many_requests = \<lparr>status = Some 429, response = None, message = Some ''Too Many Requests''\<rparr>"

definition service_unavailable :: js_error where
  "service_unavailable =
     \<lparr>status = Some 503, response = None, message = Some ''The model is overloaded.''\<rparr>"

definition status_in_message :: js_error where
  "status_in_message =
     \<lparr>status = None, response = None, message = Some ''got status: 429 Too Many Requests''\<rparr>"


definition key_rejected :: js_error where
  "key_rejected =
     \<lparr>status = Some 400, response = None,
      message = Some ''API key not valid. Please pass a valid API key.''\<rparr>"

text \<open>
  A parsed document with one of the eight fields and one other field, and one in which
  four of the eight fields are present with a falsy value.
\<close>

definition sample_document :: "(string \<times> json) list" where
  "sample_document = [(''insights'', JArr [JStr ''growth'']), (''forecast'', JNull)]"

definition falsy_document :: "(string \<times> json) list" where
  "falsy_document =
     [(''insights'', JNull), (''risk_heatmap'', JBool False), (''anomalies'', JNum 0),
      (''recommendations'', JStr [])]"

text \<open>
  A stand-in for the runtime in the examples: its \<open>JSON.parse\<close> reads the three literal
  names and rejects every other text, and its \<open>JSON.stringify\<close> is used on \<open>null\<close> only.
\<close>

definition literals_runtime :: runtime where
  "literals_runtime =
     \<lparr>JSON_parse = (\<lambda>t. if t = ''null'' then Inr JNull
                         else if t = ''true'' then Inr (JBool True)
                         else if t = ''false'' then Inr (JBool False)
                         else Inl (new_Error ''Unexpected token'')),
      JSON_stringify = (\<lambda>j. ''null''),
      Number_toString = (\<lambda>n. ''0'')\<rparr>"

definition configured_env :: env where
  "configured_env = \<lparr>COGAPI3 = Some ''key-1'', GEMINI_API_KEY = None\<rparr>"

definition sample_request :: analyze_request where
  "sample_request =
     \<lparr>dataset = Some (JArr [JObj [(''region'', JStr ''EU''), (''sales'', JNum 7)]]),
      query = Some (JStr ''Analyze growth trends''),
      req_context = Some (JStr ''Enterprise Sales Performance Q1'')\<rparr>"

text \<open>The state of the component before a sign-in, and with a user and one row loaded.\<close>

definition initial_client :: client where
  "initial_client =
     \<lparr>data = [], result = Some JNull, error = None, isAnalyzing = False, user = Some JNull,
      history = JArr [], stored_user = None, console = [], requests = []\<rparr>"

definition ada :: json where
  "ada = JObj [(''id'', JStr ''u1''), (''name'', JStr ''Ada'')]"

definition signed_in_client :: client where
  "signed_in_client =
     initial_client\<lparr>data := [JObj [(''region'', JStr ''EU'')]], user := Some ada\<rparr>"

definition sign_in_message :: "json option" where
  "sign_in_message = Some (JObj [(''type'', JStr ''OAUTH_AUTH_SUCCESS''), (''user'', ada)])"

definition empty_history :: fetched where
  "empty_history = Resolved \<lparr>reply_status = 200, reply_body = JsonBody (JArr [])\<rparr>"

definition analysis_reply :: reply where
  "analysis_reply =
     \<lparr>reply_status = 200, reply_body = JsonBody (JObj (normalize_fields sample_document))\<rparr>"

text \<open>
  What the client gets when the route that saves a report fails in the store: the
  answer 500 of the framework, which is not JSON.
\<close>

definition save_refused :: fetched where
  "save_refused =
     Resolved \<lparr>reply_status = 500, reply_body = TextBody ''Internal Server Error''\<rparr>"

text \<open>A database with one user and one report, and a request with the report's identifier.\<close>

definition one_report_db :: database where
  "one_report_db =
     \<lparr>users = [Some ''u1''],
      reports = [\<lparr>row_id = Some ''rep_1'', row_user_id = Some ''u1'',
                  row_query = Some ''Analyze growth trends'', row_context = None,
                  row_result = Some ''null'', created_at = 100\<rparr>],
      foreign_keys = True\<rparr>"

definition duplicate_request :: report_request where
  "duplicate_request =
     \<lparr>body_id = Some ''rep_1'', body_userId = Some ''u1'', body_query = Some ''Another query'',
      body_context = None, body_result = Some JNull\<rparr>"

text \<open>
  A database in which the user \<open>u1\<close> has three reports, two of them of the same second,
  and the user \<open>u2\<close> has one.
\<close>

definition report_of :: "string \<Rightarrow> string \<Rightarrow> nat \<Rightarrow> report_row" where
  "report_of i u t =
     \<lparr>row_id = Some i, row_user_id = Some u, row_query = None, row_context = None,
      row_result = Some ''null'', created_at = t\<rparr>"

definition tied_db :: database where
  "tied_db =
     \<lparr>users = [Some ''u1'', Some ''u2''],
      reports = [report_of ''a'' ''u1'' 100, report_of ''b'' ''u1'' 200,
                 report_of ''x'' ''u2'' 150, report_of ''c'' ''u1'' 100],
      foreign_keys = True\<rparr>"

text \<open>A request without a dataset, and an environment without a credential.\<close>

definition empty_request :: analyze_request where
  "empty_request = \<lparr>dataset = None, query = None, req_context = None\<rparr>"

definition unconfigured_env :: env where
  "unconfigured_env = \<lparr>COGAPI3 = None, GEMINI_API_KEY = Some []\<rparr>"

section \<open>Properties of the string operations\<close>


lemma startsWith_iff: "startsWith s p = (\<exists>q. s = p @ q)"
  by (induction s p rule: startsWith.induct) auto

lemma str_includes_iff: "str_includes s sub = (\<exists>p q. s = p @ sub @ q)"
proof (induction s)
  case Nil
  then show ?case by auto
next
  case (Cons c cs)
  show ?case
  proof
    assume "str_includes (c # cs) sub"
    then consider "startsWith (c # cs) sub" | "str_includes cs sub" by auto
    then show "\<exists>p q. c # cs = p @ sub @ q"
    proof cases
      case 1
      then obtain q where "c # cs = sub @ q" by (auto simp: startsWith_iff)
      then have "c # cs = [] @ sub @ q" by simp
      then show ?thesis by blast
    next
      case 2
      then obtain p q where "cs = p @ sub @ q" using Cons.IH by auto
      then have "c # cs = (c # p) @ sub @ q" by simp
      then show ?thesis by blast
    qed
  next
    assume "\<exists>p q. c # cs = p @ sub @ q"
    then obtain p q where pq: "c # cs = p @ sub @ q" by blast
    show "str_includes (c # cs) sub"
    proof (cases p)
      case Nil
      with pq have "startsWith (c # cs) sub" by (auto simp: startsWith_iff)
      then show ?thesis by simp
    next
      case (Cons a p')
      with pq have "cs = p' @ sub @ q" by simp
      then have "str_includes cs sub" using Cons.IH by blast
      then show ?thesis by simp
    qed
  qed
qed

lemma endsWith_iff: "endsWith s suf = (\<exists>p. s = p @ suf)"
proof -
  have "endsWith s suf = (\<exists>q. rev s = rev suf @ q)"
    by (simp add: endsWith_def startsWith_iff)
  also have "\<dots> = (\<exists>p. s = p @ suf)"
  proof
    assume "\<exists>q. rev s = rev suf @ q"
    then obtain q where "rev s = rev suf @ q" by blast
    then have "rev (rev s) = rev (rev suf @ q)" by simp
    then have "s = rev q @ suf" by simp
    then show "\<exists>p. s = p @ suf" by blast
  next
    assume "\<exists>p. s = p @ suf"
    then obtain p where "s = p @ suf" by blast
    then have "rev s = rev suf @ rev p" by simp
    then show "\<exists>q. rev s = rev suf @ q" by blast
  qed
  finally show ?thesis .
qed



section \<open>Properties of \<open>withRetry\<close>\<close>







lemma retry_loop_all_transient:
  "(\<forall>k. i \<le> k \<and> k < m \<longrightarrow> fn k = Inl (errs k) \<and> is_transient (errs k)) \<Longrightarrow>
   retry_loop fn m b i le slept =
     \<lparr>outcome = Inl (if i < m then Some (errs (m - 1)) else le), calls = max i m,
      sleeps = slept @ map (\<lambda>k. b * 2 ^ k) [i..<m]\<rparr>"
proof (induction fn m b i le slept rule: retry_loop.induct)
  case (1 fn m b i le slept)
  show ?case
  proof (cases "i < m")
    case False
    then show ?thesis by (subst retry_loop.simps) simp
  next
    case True
    with "1.prems" have fi: "fn i = Inl (errs i)" and tr: "is_transient (errs i)" by auto
    have "\<forall>k. i + 1 \<le> k \<and> k < m \<longrightarrow> fn k = Inl (errs k) \<and> is_transient (errs k)"
      using "1.prems" by auto
    note IH = "1.IH"[OF True fi tr this]
    have step: "retry_loop fn m b i le slept =
          retry_loop fn m b (i + 1) (Some (errs i)) (slept @ [b * 2 ^ i])"
      using True fi tr by (subst retry_loop.simps) simp
    have eq: "retry_loop fn m b i le slept =
          \<lparr>outcome = Inl (if i + 1 < m then Some (errs (m - 1)) else Some (errs i)),
           calls = max (i + 1) m,
           sleeps = (slept @ [b * 2 ^ i]) @ map (\<lambda>k. b * 2 ^ k) [i + 1..<m]\<rparr>"
      unfolding step IH ..
    have upt: "[i..<m] = i # [i + 1..<m]"
      using True by (simp add: upt_conv_Cons)
    show ?thesis
    proof (cases "i + 1 < m")
      case True
      with \<open>i < m\<close> show ?thesis
        unfolding eq upt by (simp add: max_def)
    next
      case False
      with \<open>i < m\<close> have "m = i + 1" by simp
      then show ?thesis
        unfolding eq upt by (simp add: max_def)
    qed
  qed
qed

lemma withRetry_exhausted:
  assumes "\<forall>k < m. fn k = Inl (errs k) \<and> is_transient (errs k)" and "0 < m"
  shows "withRetry fn m b =
           \<lparr>outcome = Inl (Some (errs (m - 1))), calls = m,
            sleeps = map (\<lambda>k. b * 2 ^ k) [0..<m]\<rparr>"
  using retry_loop_all_transient[of 0 m fn errs b None "[]"] assms
  by (simp add: withRetry_def max_def)

lemma withRetry_first_terminal:
  assumes "fn 0 = Inl e" and "\<not> is_transient e" and "0 < m"
  shows "withRetry fn m b = \<lparr>outcome = Inl (Some e), calls = 1, sleeps = []\<rparr>"
  using assms unfolding withRetry_def by (subst retry_loop.simps) simp

lemma withRetry_first_returns:
  assumes "fn 0 = Inr v" and "0 < m"
  shows "withRetry fn m b = \<lparr>outcome = Inr v, calls = 1, sleeps = []\<rparr>"
  using assms unfolding withRetry_def by (subst retry_loop.simps) simp


lemma too_many_requests_transient: "is_transient too_many_requests"
  by (simp add: is_transient_def too_many_requests_def error_status_def)






text \<open>
  Claim C2. An operation whose every call throws the error \<open>too_many_requests\<close> (status
  429) is called 5 times and the error is thrown again unchanged; but the invoker sleeps
  after the fifth call too: the delays are 2000, 4000, 8000, 16000 and 32000 ms, the last
  one followed by no call.
\<close>

theorem withRetry_sleeps_after_last_attempt:
  "withRetry_default (always_throws too_many_requests) =
     \<lparr>outcome = Inl (Some too_many_requests), calls = 5,
      sleeps = [2000, 4000, 8000, 16000, 32000]\<rparr>"
  by (simp add: withRetry_default_def withRetry_def retry_loop.simps always_throws_def
      too_many_requests_transient)

section \<open>Properties of the normalizer\<close>

lemma map_of_set_property: "map_of (set_property k v fs) = (map_of fs)(k \<mapsto> v)"
  by (induction fs) (auto simp: fun_eq_iff)

lemma map_of_fill_default:
  "map_of (fill_default k d fs) k' =
     (if k' = k \<and> \<not> truthy_opt (map_of fs k) then Some d else map_of fs k')"
  by (simp add: fill_default_def map_of_set_property)

lemma map_of_fold_fill_default:
  "distinct (map fst ds) \<Longrightarrow>
   map_of (fold (\<lambda>(k, d). fill_default k d) ds fs) k' =
     (case map_of ds k' of
        Some d \<Rightarrow> if truthy_opt (map_of fs k') then map_of fs k' else Some d
      | None \<Rightarrow> map_of fs k')"
proof (induction ds arbitrary: fs)
  case Nil
  then show ?case by simp
next
  case (Cons a ds)
  obtain k d where a: "a = (k, d)" by (cases a)
  from Cons.prems a have dist: "distinct (map fst ds)" and notin: "k \<notin> fst ` set ds"
    by auto
  from notin have none: "map_of ds k = None"
    by (simp add: map_of_eq_None_iff)
  show ?case
  proof (cases "k' = k")
    case True
    then show ?thesis
      using Cons.IH[OF dist, of "fill_default k d fs"] a none
      by (simp add: map_of_fill_default)
  next
    case False
    then show ?thesis
      using Cons.IH[OF dist, of "fill_default k d fs"] a
      by (simp add: map_of_fill_default split: option.splits)
  qed
qed

lemma defaults_keys:
  "map fst defaults =
     [''data_summary'', ''insights'', ''anomalies'', ''risk_analysis'', ''recommendations'',
      ''risk_heatmap'', ''operational_efficiency'', ''geographic_matrix'']"
  by (simp add: defaults_def)

lemma defaults_distinct: "distinct (map fst defaults)"
  unfolding defaults_keys by simp

lemma defaults_truthy: "map_of defaults k = Some d \<Longrightarrow> truthy d"
proof -
  assume "map_of defaults k = Some d"
  then have "(k, d) \<in> set defaults" by (rule map_of_SomeD)
  then have "d \<in> snd ` set defaults" by force
  then show "truthy d"
    by (auto simp: defaults_def default_data_summary_def default_risk_heatmap_def
        default_operational_efficiency_def default_geographic_matrix_def)
qed

lemma defaults_present:
  "k \<in> set (map fst defaults) \<Longrightarrow> \<exists>d. map_of defaults k = Some d"
  by (metis map_of_eq_None_iff not_Some_eq set_map)

lemma map_of_normalize_fields:
  "map_of (normalize_fields fs) k =
     (case map_of defaults k of
        Some d \<Rightarrow> if truthy_opt (map_of fs k) then map_of fs k else Some d
      | None \<Rightarrow> map_of fs k)"
  unfolding normalize_fields_def by (rule map_of_fold_fill_default[OF defaults_distinct])

text \<open>
  Claim C3, as the code has it. For a parsed document that is an object, the normalizer
  gives every one of the eight fields (\<open>data_summary\<close>, \<open>insights\<close>, \<open>anomalies\<close>,
  \<open>risk_analysis\<close>, \<open>recommendations\<close>, \<open>risk_heatmap\<close>, \<open>operational_efficiency\<close>,
  \<open>geographic_matrix\<close>) its literal default when the field is absent or holds a falsy
  value (\<open>null\<close>, \<open>false\<close>, 0, the empty string), and leaves every other field as
  parsed, absence included: a field of the eight with a truthy value, and any field that
  is not one of the eight (\<open>forecast\<close>, \<open>visualizations\<close>, \<open>strategic_growth\<close>,
  \<open>market_expansion\<close> among them). Hence each of the eight fields is present with a truthy
  value in the result.
\<close>

theorem normalize_fills_absent_or_falsy:
  "normalize rt (JObj fs) = Inr (JObj (normalize_fields fs)) \<and>
   (k \<in> set (map fst defaults) \<and> \<not> truthy_opt (map_of fs k) \<longrightarrow>
      map_of (normalize_fields fs) k = map_of defaults k) \<and>
   (k \<notin> set (map fst defaults) \<or> truthy_opt (map_of fs k) \<longrightarrow>
      map_of (normalize_fields fs) k = map_of fs k) \<and>
   (\<forall>k' \<in> set (map fst defaults). truthy_opt (map_of (normalize_fields fs) k'))"
proof -
  have a: "map_of (normalize_fields fs) k = map_of defaults k"
    if "k \<in> set (map fst defaults)" and "\<not> truthy_opt (map_of fs k)"
  proof -
    from that(1) obtain d where "map_of defaults k = Some d"
      using defaults_present by blast
    with that(2) show ?thesis by (simp add: map_of_normalize_fields)
  qed
  have b: "map_of (normalize_fields fs) k = map_of fs k"
    if "k \<notin> set (map fst defaults) \<or> truthy_opt (map_of fs k)"
  proof (cases "map_of defaults k")
    case None
    then show ?thesis by (simp add: map_of_normalize_fields)
  next
    case (Some d)
    then have "k \<in> set (map fst defaults)"
      by (metis map_of_eq_None_iff option.distinct(1) set_map)
    with that have "truthy_opt (map_of fs k)" by simp
    with Some show ?thesis by (simp add: map_of_normalize_fields)
  qed
  have c: "truthy_opt (map_of (normalize_fields fs) k')"
    if "k' \<in> set (map fst defaults)" for k'
  proof -
    from that obtain d where d: "map_of defaults k' = Some d"
      using defaults_present by blast
    then show ?thesis
      using defaults_truthy[OF d] by (simp add: map_of_normalize_fields truthy_opt_def)
  qed
  show ?thesis using a b c by simp
qed

theorem normalize_fills_absent_or_falsy_witness:
  "''anomalies'' \<in> set (map fst defaults) \<and>
   \<not> truthy_opt (map_of sample_document ''anomalies'') \<and>
   map_of (normalize_fields sample_document) ''anomalies'' = Some (JArr []) \<and>
   truthy_opt (map_of sample_document ''insights'') \<and>
   map_of (normalize_fields sample_document) ''insights'' = Some (JArr [JStr ''growth'']) \<and>
   ''forecast'' \<notin> set (map fst defaults) \<and>
   map_of (normalize_fields sample_document) ''forecast'' = Some JNull \<and>
   ''visualizations'' \<notin> set (map fst defaults) \<and>
   map_of (normalize_fields sample_document) ''visualizations'' = None"
  using normalize_fills_absent_or_falsy[of _ sample_document "''anomalies''"]
    normalize_fills_absent_or_falsy[of _ sample_document "''insights''"]
    normalize_fills_absent_or_falsy[of _ sample_document "''forecast''"]
    normalize_fills_absent_or_falsy[of _ sample_document "''visualizations''"]
  by (simp add: defaults_keys sample_document_def truthy_opt_def defaults_def)

text \<open>
  Claim C3 as stated fails: a field that is present with a falsy value is not left as
  parsed. In \<open>falsy_document\<close> the fields \<open>insights\<close>, \<open>risk_heatmap\<close>, \<open>anomalies\<close> and
  \<open>recommendations\<close> are present (\<open>null\<close>, \<open>false\<close>, 0 and the empty string), and the
  normalizer replaces each by its default.
\<close>

theorem normalize_replaces_present_falsy_fields:
  "map_of falsy_document ''insights'' = Some JNull \<and>
   map_of falsy_document ''anomalies'' = Some (JNum 0) \<and>
   normalize_fields falsy_document =
     [(''insights'', JArr []), (''risk_heatmap'', default_risk_heatmap),
      (''anomalies'', JArr []), (''recommendations'', JArr []),
      (''data_summary'', default_data_summary), (''risk_analysis'', JArr []),
      (''operational_efficiency'', default_operational_efficiency),
      (''geographic_matrix'', default_geographic_matrix)]"
  by (simp add: falsy_document_def normalize_fields_def defaults_def fill_default_def
      truthy_opt_def)

section \<open>Properties of the sign-in handoff\<close>

lemma origin_allowed_iff:
  "origin_allowed origin =
     ((\<exists>p. origin = p @ ''.run.app'') \<or> (\<exists>p q. origin = p @ ''localhost'' @ q))"
  by (simp add: origin_allowed_def endsWith_iff str_includes_iff)

lemma fetchHistory_keeps_user:
  "user (fetchHistory st i f) = user st \<and> stored_user (fetchHistory st i f) = stored_user st \<and>
   result (fetchHistory st i f) = result st \<and> error (fetchHistory st i f) = error st \<and>
   isAnalyzing (fetchHistory st i f) = isAnalyzing st"
  by (simp add: fetchHistory_def Let_def split: fetched.splits reply_body.splits)

text \<open>
  The test of \<open>handleMessage\<close>: a message whose origin neither ends with \<open>.run.app\<close> nor
  contains \<open>localhost\<close> leaves the state as it is, whatever its content; the state changes
  only for a message of type \<open>OAUTH_AUTH_SUCCESS\<close> whose origin passes the test, and then the
  user of the message is set and stored.
\<close>

lemma handleMessage_checks_origin:
  "(\<not> origin_allowed origin \<longrightarrow> handleMessage st origin msg f = st) \<and>
   (handleMessage st origin msg f \<noteq> st \<longrightarrow>
      origin_allowed origin \<and>
      optional_property ''type'' msg = Some (JStr ''OAUTH_AUTH_SUCCESS'')) \<and>
   (origin_allowed origin \<and> optional_property ''type'' msg = Some (JStr ''OAUTH_AUTH_SUCCESS'') \<longrightarrow>
      user (handleMessage st origin msg f) = optional_property ''user'' msg \<and>
      stored_user (handleMessage st origin msg f) \<noteq> None)"
  by (auto simp: handleMessage_def origin_allowed_def Let_def fetchHistory_keeps_user
      split: sum.splits)

text \<open>
  Claim C4. The claim holds of the origins that fail the test of the code, and the test
  is weaker than the claim: it looks for \<open>localhost\<close> anywhere in the origin. The origin
  \<open>https://localhost.evil.example.com\<close> has the host \<open>localhost.evil.example.com\<close>, which
  is neither the application host nor a local-development host, and a sign-in message from
  it is trusted: the user is set and stored, and the history of the user is fetched.
\<close>

theorem handleMessage_trusts_origin_containing_localhost:
  "origin_host ''https://localhost.evil.example.com'' = ''localhost.evil.example.com'' \<and>
   \<not> spec_trusted_origin ''app-123.run.app'' ''https://localhost.evil.example.com'' \<and>
   handleMessage initial_client ''https://localhost.evil.example.com'' sign_in_message
     empty_history =
     initial_client\<lparr>user := Some ada, stored_user := Some (Stringified ada),
                      requests := [GetReports (Some (JStr ''u1''))], history := JArr []\<rparr>"
proof -
  have h: "origin_host ''https://localhost.evil.example.com'' = ''localhost.evil.example.com''"
    by (simp add: origin_host_def)
  have t: "\<not> spec_trusted_origin ''app-123.run.app'' ''https://localhost.evil.example.com''"
    unfolding spec_trusted_origin_def h by (simp add: spec_local_development_host_def)
  have m: "handleMessage initial_client ''https://localhost.evil.example.com'' sign_in_message
     empty_history =
     initial_client\<lparr>user := Some ada, stored_user := Some (Stringified ada),
                      requests := [GetReports (Some (JStr ''u1''))], history := JArr []\<rparr>"
    by (simp add: handleMessage_def endsWith_def optional_property_def sign_in_message_def
        ada_def fetchHistory_def empty_history_def ok_def initial_client_def Let_def)
  show ?thesis using h t m by simp
qed

section \<open>Properties of the report store\<close>

text \<open>
  Claim C7. When a row of \<open>reports\<close> has the identifier \<open>i\<close>, inserting a report with the
  identifier \<open>i\<close> fails with the primary key error of the engine (the
  \<open>DuplicateIdError\<close> of the specification), whatever its other fields, and the handler
  leaves the database as it was.
\<close>

theorem post_reports_duplicate_id:
  assumes "body_id req = Some i" and "Some i \<in> set (map row_id (reports db))"
  shows "insert_report db now (Some i) u q c r = Inl SQLITE_CONSTRAINT_PRIMARYKEY \<and>
         post_reports rt db now req = (Inl SQLITE_CONSTRAINT_PRIMARYKEY, db)"
  using assms by (simp add: post_reports_def insert_report_def)

theorem post_reports_duplicate_id_witness:
  "body_id duplicate_request = Some ''rep_1'' \<and>
   Some ''rep_1'' \<in> set (map row_id (reports one_report_db)) \<and>
   post_reports literals_runtime one_report_db 200 duplicate_request =
     (Inl SQLITE_CONSTRAINT_PRIMARYKEY, one_report_db)"
proof -
  have h1: "body_id duplicate_request = Some ''rep_1''"
    by (simp add: duplicate_request_def)
  have h2: "Some ''rep_1'' \<in> set (map row_id (reports one_report_db))"
    by (simp add: one_report_db_def)
  show ?thesis
    using post_reports_duplicate_id[OF h1 h2, of 200 _ _ _ _ literals_runtime] h1 h2 by simp
qed

lemma stable_desc_mset: "mset (stable_desc rows) = mset rows"
  by (simp add: stable_desc_def)

lemma stable_desc_descending: "descending (stable_desc rows)"
proof -
  have "sorted (map created_at (sort_key created_at (rev rows)))"
    by (rule sorted_sort_key)
  then have "sorted_wrt (\<lambda>a b. created_at a \<le> created_at b) (sort_key created_at (rev rows))"
    by (simp add: sorted_map)
  then have "sorted_wrt (\<lambda>a b. created_at b \<le> created_at a)
               (rev (sort_key created_at (rev rows)))"
    by (simp add: sorted_wrt_rev)
  then show ?thesis by (simp add: descending_def stable_desc_def)
qed

lemma stable_desc_stable:
  "filter (\<lambda>r. created_at r = t) (stable_desc rows) = filter (\<lambda>r. created_at r = t) rows"
  by (simp add: stable_desc_def rev_filter[symmetric] sort_key_stable)

lemma parse_rows_rows: "parse_rows rt rows = Inr rs \<Longrightarrow> map fst rs = rows"
  by (induction rows arbitrary: rs) (auto split: sum.splits)

lemma parse_rows_total:
  "(\<forall>r \<in> set rows. \<exists>j. parse_result rt r = Inr j) \<Longrightarrow> \<exists>rs. parse_rows rt rows = Inr rs"
  by (induction rows) (auto split: sum.splits)

lemma filter_take_prefix: "prefix (filter P (take n xs)) (filter P xs)"
proof -
  have "filter P xs = filter P (take n xs) @ filter P (drop n xs)"
    by (metis append_take_drop_id filter_append)
  then show ?thesis by (simp add: prefix_def)
qed

lemma mset_minus_take: "mset xs - mset (take n xs) = mset (drop n xs)"
proof -
  have "mset xs = mset (take n xs) + mset (drop n xs)"
    by (metis append_take_drop_id mset_append)
  then show ?thesis by simp
qed

lemma sorted_wrt_take_above_drop:
  assumes "sorted_wrt R xs" and "x \<in> set (take n xs)" and "y \<in> set (drop n xs)"
  shows "R x y"
proof -
  have "sorted_wrt R (take n xs @ drop n xs)" using assms(1) by simp
  then show ?thesis using assms(2,3) unfolding sorted_wrt_append by blast
qed

text \<open>
  Claim C6, as the code has it. For every user identifier other than the empty string and
  every state of the store, the query returns at most 10 rows, each a stored report of
  that user, in descending order of creation time; no report of the user that is left out
  is more recent than one that is returned; rows of one creation time come in their order
  of insertion, the first inserted being the ones returned; and the route answers with
  these rows, each with its result parsed, whenever the stored results parse: for a user
  with no stored report the answer is the empty list. A missing or empty user identifier
  is answered with 400.
\<close>

theorem listByUser_recent_reports:
  assumes "userId \<noteq> []"
  shows
    "length (listByUser db userId) \<le> 10 \<and>
     (\<forall>r \<in> set (listByUser db userId). r \<in> set (reports db) \<and> row_user_id r = Some userId) \<and>
     descending (listByUser db userId) \<and>
     (\<forall>r \<in> set (listByUser db userId).
        \<forall>r' \<in># mset (filter (\<lambda>r. row_user_id r = Some userId) (reports db)) -
                  mset (listByUser db userId).
          created_at r' \<le> created_at r) \<and>
     (\<forall>t. prefix (filter (\<lambda>r. created_at r = t) (listByUser db userId))
                 (filter (\<lambda>r. created_at r = t)
                    (filter (\<lambda>r. row_user_id r = Some userId) (reports db)))) \<and>
     (filter (\<lambda>r. row_user_id r = Some userId) (reports db) = [] \<longrightarrow>
        get_reports rt db (Some userId) = ReportList []) \<and>
     ((\<forall>r \<in> set (listByUser db userId). \<exists>j. parse_result rt r = Inr j) \<longrightarrow>
        (\<exists>rs. get_reports rt db (Some userId) = ReportList rs)) \<and>
     (\<forall>rs. get_reports rt db (Some userId) = ReportList rs \<longrightarrow>
        map fst rs = listByUser db userId) \<and>
     (\<forall>m. get_reports rt db (Some userId) \<noteq> BadRequest m) \<and>
     get_reports rt db None = BadRequest ''userId required'' \<and>
     get_reports rt db (Some []) = BadRequest ''userId required''"
proof -
  define owned where "owned = filter (\<lambda>r. row_user_id r = Some userId) (reports db)"
  define s where "s = stable_desc owned"
  have l: "listByUser db userId = take 10 s"
    by (simp add: listByUser_def s_def owned_def)
  have ms: "mset s = mset owned"
    by (simp add: s_def stable_desc_mset)
  have desc: "descending s"
    by (simp add: s_def stable_desc_descending)
  have st: "filter (\<lambda>r. created_at r = t) s = filter (\<lambda>r. created_at r = t) owned" for t
    by (simp add: s_def stable_desc_stable)
  have sets: "set s = set owned"
    using ms by (metis set_mset_mset)
  have 1: "length (take 10 s) \<le> 10" by simp
  have 2: "\<forall>r \<in> set (take 10 s). r \<in> set (reports db) \<and> row_user_id r = Some userId"
  proof
    fix r assume "r \<in> set (take 10 s)"
    then have "r \<in> set s" by (rule in_set_takeD)
    then have "r \<in> set owned" using sets by simp
    then show "r \<in> set (reports db) \<and> row_user_id r = Some userId"
      by (simp add: owned_def)
  qed
  have 3: "descending (take 10 s)"
    using desc by (simp add: descending_def sorted_wrt_take)
  have 4: "\<forall>r \<in> set (take 10 s). \<forall>r' \<in># mset owned - mset (take 10 s).
             created_at r' \<le> created_at r"
  proof (intro ballI)
    fix r r' assume r: "r \<in> set (take 10 s)" and "r' \<in># mset owned - mset (take 10 s)"
    then have r': "r' \<in> set (drop 10 s)"
      using ms mset_minus_take[of s 10] by (metis set_mset_mset)
    have "sorted_wrt (\<lambda>a b. created_at b \<le> created_at a) s"
      using desc by (simp add: descending_def)
    from sorted_wrt_take_above_drop[OF this r r'] show "created_at r' \<le> created_at r" .
  qed
  have 5: "\<forall>t. prefix (filter (\<lambda>r. created_at r = t) (take 10 s))
                 (filter (\<lambda>r. created_at r = t) owned)"
    using filter_take_prefix[of _ 10 s] st by metis
  have 6: "owned = [] \<longrightarrow> get_reports rt db (Some userId) = ReportList []"
  proof
    assume "owned = []"
    then have "s = []" using ms by simp
    then show "get_reports rt db (Some userId) = ReportList []"
      using assms l by (simp add: get_reports_def)
  qed
  have 7: "\<forall>rs. get_reports rt db (Some userId) = ReportList rs \<longrightarrow>
        map fst rs = take 10 s"
    using assms l parse_rows_rows[of rt "take 10 s"]
    by (auto simp: get_reports_def split: sum.splits)
  have 8: "\<forall>m. get_reports rt db (Some userId) \<noteq> BadRequest m"
    using assms by (simp add: get_reports_def split: sum.splits)
  have 9: "(\<forall>r \<in> set (take 10 s). \<exists>j. parse_result rt r = Inr j) \<longrightarrow>
        (\<exists>rs. get_reports rt db (Some userId) = ReportList rs)"
  proof
    assume "\<forall>r \<in> set (take 10 s). \<exists>j. parse_result rt r = Inr j"
    then obtain rs where "parse_rows rt (take 10 s) = Inr rs"
      using parse_rows_total by blast
    then have "get_reports rt db (Some userId) = ReportList rs"
      using assms l by (simp add: get_reports_def)
    then show "\<exists>rs. get_reports rt db (Some userId) = ReportList rs" ..
  qed
  have 10: "get_reports rt db None = BadRequest ''userId required''"
    by (simp add: get_reports_def)
  have 11: "get_reports rt db (Some []) = BadRequest ''userId required''"
    by (simp add: get_reports_def)
  show ?thesis
    using 1 2 3 4 5 6 7 8 9 10 11 unfolding l owned_def[symmetric] by blast
qed

lemma tied_list:
  "listByUser tied_db ''u1'' =
     [report_of ''b'' ''u1'' 200, report_of ''a'' ''u1'' 100, report_of ''c'' ''u1'' 100]"
  by (simp add: listByUser_def stable_desc_def tied_db_def report_of_def)

theorem listByUser_recent_reports_witness:
  "''u1'' \<noteq> [] \<and>
   listByUser tied_db ''u1'' =
     [report_of ''b'' ''u1'' 200, report_of ''a'' ''u1'' 100, report_of ''c'' ''u1'' 100] \<and>
   length (listByUser tied_db ''u1'') \<le> 10 \<and>
   descending (listByUser tied_db ''u1'') \<and>
   get_reports literals_runtime tied_db (Some ''u1'') =
     ReportList [(report_of ''b'' ''u1'' 200, JNull), (report_of ''a'' ''u1'' 100, JNull),
                 (report_of ''c'' ''u1'' 100, JNull)]"
proof -
  have h: "''u1'' \<noteq> []" by simp
  have g: "get_reports literals_runtime tied_db (Some ''u1'') =
     ReportList [(report_of ''b'' ''u1'' 200, JNull), (report_of ''a'' ''u1'' 100, JNull),
                 (report_of ''c'' ''u1'' 100, JNull)]"
    by (simp add: get_reports_def tied_list parse_result_def literals_runtime_def report_of_def)
  show ?thesis
    using listByUser_recent_reports[OF h, of tied_db literals_runtime] tied_list g
    by simp
qed

text \<open>
  Claim C6 as stated fails for the empty user identifier: no report of it is stored in
  \<open>one_report_db\<close>, and the route answers 400 with \<open>userId required\<close>, not the empty
  list.
\<close>

theorem get_reports_empty_userId_is_an_error:
  "listByUser one_report_db [] = [] \<and>
   get_reports literals_runtime one_report_db (Some []) = BadRequest ''userId required''"
  by (simp add: listByUser_def get_reports_def one_report_db_def stable_desc_def)

text \<open>
  What the store does to a result between the two routes: the text kept in the row is
  \<open>JSON.stringify\<close> of the result posted, and the value listed is \<open>JSON.parse\<close> of that
  text. Whether the two compose to the identity is a property of the runtime.
\<close>

lemma stored_result_is_stringified:
  assumes "post_reports rt db now req = (Inr resp, db')" and "body_result req = Some x"
  shows "row_result (last (reports db')) = Some (JSON_stringify rt x) \<and>
         parse_result rt (last (reports db')) = JSON_parse rt (JSON_stringify rt x)"
  using assms
  by (auto simp: post_reports_def insert_report_def parse_result_def split: if_splits)

section \<open>Properties of the analysis endpoint and of \<open>runAnalysis\<close>\<close>

lemma new_Error_status: "catch_status (new_Error m) = 500"
  by (simp add: catch_status_def error_status_def response_status_def new_Error_def)

lemma configured_env_has_key: "\<not> apiKey_missing configured_env"
  by (simp add: apiKey_missing_def apiKey_def configured_env_def trim_def is_space_def)

lemma always_returns_run:
  "withRetry_default (always_returns t) = \<lparr>outcome = Inr (Some t), calls = 1, sleeps = []\<rparr>"
  by (simp add: withRetry_default_def withRetry_first_returns always_returns_def)

text \<open>
  Claim C10. The text \<open>null\<close> is valid JSON and parses to \<open>null\<close>. When the reasoning
  service answers with it, the first of the eight statements throws on reading
  \<open>data_summary\<close> of \<open>null\<close>, no default is filled in, and the request ends in the last
  branch of the \<open>catch\<close> block: status 500 with the message of the error.
\<close>

theorem analyze_null_document:
  assumes "JSON_parse rt ''null'' = Inr JNull"
    and "dataset req = Some (JArr rows)"
    and "\<not> apiKey_missing ev"
    and "outcome (withRetry_default fn) = Inr (Some ''null'')"
  shows "normalize rt JNull =
           Inl (new_Error (''Cannot read properties of null (reading '' @
                           quoted ''data_summary'' @ '')'')) \<and>
         analyze rt ev req fn =
           Some \<lparr>code = 500,
                 body = ErrorBody (''Cannot read properties of null (reading '' @
                                   quoted ''data_summary'' @ '')'')\<rparr>"
proof -
  let ?e = "new_Error (''Cannot read properties of null (reading '' @
                           quoted ''data_summary'' @ '')'')"
  have t: "analyze_try rt (JArr rows) fn = Inl (Some ?e)"
    using assms by (simp add: analyze_try_def response_text_def)
  have m: "error_message ?e = ''cannot read properties of null (reading 'data_summary')''"
    by (simp add: error_message_def new_Error_def quoted_def toLowerCase_def toLowerCase_char_def)
  have c: "analyze_catch ev ?e = Some \<lparr>code = 500, body = ErrorBody (''Cannot read properties of null (reading '' @
                                   quoted ''data_summary'' @ '')'')\<rparr>"
    unfolding analyze_catch_def invalid_key_def rate_limited_def m new_Error_status
    by (simp add: message_or_default_def new_Error_def send_error_def bodyless_def)
  show ?thesis using assms t c by (simp add: analyze_def)
qed

theorem analyze_null_document_witness:
  "JSON_parse literals_runtime ''null'' = Inr JNull \<and>
   \<not> apiKey_missing configured_env \<and>
   outcome (withRetry_default (always_returns ''null'')) = Inr (Some ''null'') \<and>
   analyze literals_runtime configured_env sample_request (always_returns ''null'') =
     Some \<lparr>code = 500,
           body = ErrorBody (''Cannot read properties of null (reading '' @
                             quoted ''data_summary'' @ '')'')\<rparr>"
proof -
  have h1: "JSON_parse literals_runtime ''null'' = Inr JNull"
    by (simp add: literals_runtime_def)
  have h2: "dataset sample_request =
              Some (JArr [JObj [(''region'', JStr ''EU''), (''sales'', JNum 7)]])"
    by (simp add: sample_request_def)
  have h4: "outcome (withRetry_default (always_returns ''null'')) = Inr (Some ''null'')"
    by (simp add: always_returns_run)
  show ?thesis
    using analyze_null_document[OF h1 h2 configured_env_has_key h4] h1 h4
      configured_env_has_key
    by simp
qed

lemma save_report_keeps:
  "result (save_report st j saved f) = result st \<and> error (save_report st j saved f) = error st"
  by (simp add: save_report_def Let_def fetchHistory_keeps_user split: fetched.splits)

lemma save_report_rejected:
  "save_report st j (Rejected e) f =
     st\<lparr>requests := requests st @ [PostReport (optional_property ''id'' (user st)) j],
        console := console st @ [''Failed to save report'']\<rparr>"
  by (simp add: save_report_def Let_def)

text \<open>
  When the analysis answers with an \<open>ok\<close> status and a JSON body \<open>j\<close> and a user is
  present, then whatever the request that saves the report gives (a rejection, or a
  response of any status), \<open>runAnalysis\<close> ends with \<open>j\<close> as the result shown, no error
  shown and the busy flag cleared. A rejected request is written to the console as
  \<open>Failed to save report\<close>.
\<close>

lemma runAnalysis_keeps_result_when_saving_fails:
  assumes "data st \<noteq> []" and "truthy_opt (user st)" and "ok r" and "reply_body r = JsonBody j"
  shows "result (runAnalysis st (Resolved r) saved f) = Some j \<and>
         error (runAnalysis st (Resolved r) saved f) = None \<and>
         \<not> isAnalyzing (runAnalysis st (Resolved r) saved f) \<and>
         (\<forall>e. saved = Rejected e \<longrightarrow>
            console (runAnalysis st (Resolved r) saved f) =
              console st @ [''Failed to save report''])"
  using assms
  by (simp add: runAnalysis_def analysis_received_def Let_def save_report_keeps
      save_report_rejected)

text \<open>
  Claim C9. The result is kept and no error is shown, as the claim says, but the failure
  is not always logged: when the store refuses the report (a duplicate identifier, say)
  the route answers 500, the \<open>fetch\<close> resolves, the status of the response is not
  looked at, and nothing is written to the console.
\<close>

theorem runAnalysis_does_not_log_refused_save:
  "result (runAnalysis signed_in_client (Resolved analysis_reply) save_refused empty_history) =
     Some (JObj (normalize_fields sample_document)) \<and>
   error (runAnalysis signed_in_client (Resolved analysis_reply) save_refused empty_history) =
     None \<and>
   console (runAnalysis signed_in_client (Resolved analysis_reply) save_refused empty_history) =
     []"
  by (simp add: runAnalysis_def signed_in_client_def initial_client_def analysis_reply_def
      analysis_received_def ok_def truthy_opt_def ada_def save_report_def save_refused_def
      fetchHistory_def empty_history_def Let_def)

lemma no_credential_missing:
  assumes "COGAPI3 ev = None \<or> COGAPI3 ev = Some []"
    and "GEMINI_API_KEY ev = None \<or> GEMINI_API_KEY ev = Some []"
  shows "apiKey_missing ev"
  using assms by (auto simp: apiKey_missing_def apiKey_def)

lemma analyze_try_thrown:
  assumes "outcome (withRetry_default fn) = Inl (Some e)"
  shows "analyze_try rt (JArr rows) fn = Inl (Some e)"
  using assms by (simp add: analyze_try_def)

text \<open>
  The answer is 429 exactly for an error that the second test of the \<open>catch\<close> block
  accepts and the first does not.
\<close>

lemma analyze_catch_429:
  "(map_option code (analyze_catch ev e) = Some 429) = (rate_limited e \<and> \<not> invalid_key e)"
  by (auto simp: analyze_catch_def rate_limited_def invalid_key_def send_error_def)

lemma high_demand_shown:
  assumes "code resp = 429" and "data st \<noteq> []"
  shows "error (runAnalysis st (sent resp) saved f) = Some high_demand_message"
proof -
  have "message (new_Error high_demand_message) = Some high_demand_message"
    by (simp add: new_Error_def)
  moreover have "high_demand_message \<noteq> []"
    by (simp add: high_demand_message_def)
  ultimately show ?thesis
    using assms
    by (simp add: runAnalysis_def sent_def analysis_received_def ok_def not_ok_error_def
        analysis_failed_def Let_def split: response_body.splits)
qed

lemma service_unavailable_transient: "is_transient service_unavailable"
  by (simp add: is_transient_def service_unavailable_def error_status_def)

lemma status_in_message_transient: "is_transient status_in_message"
  by (simp add: is_transient_def status_in_message_def error_status_def response_status_def
      error_message_def toLowerCase_def toLowerCase_char_def)

lemma key_rejected_terminal: "\<not> is_transient key_rejected"
  by (simp add: is_transient_def key_rejected_def error_status_def response_status_def
      error_message_def toLowerCase_def toLowerCase_char_def)

lemma always_throws_exhausts:
  "is_transient e \<Longrightarrow>
   withRetry_default (always_throws e) =
     \<lparr>outcome = Inl (Some e), calls = 5, sleeps = [2000, 4000, 8000, 16000, 32000]\<rparr>"
  by (simp add: withRetry_default_def withRetry_def retry_loop.simps always_throws_def)

lemma sample_request_guards:
  "dataset sample_request = Some (JArr [JObj [(''region'', JStr ''EU''), (''sales'', JNum 7)]])"
  "truthy_opt (dataset sample_request)"
  by (simp_all add: sample_request_def truthy_opt_def)

lemma analyze_sample_thrown:
  assumes "outcome (withRetry_default fn) = Inl (Some e)"
  shows "analyze literals_runtime configured_env sample_request fn =
           analyze_catch configured_env e"
  using assms configured_env_has_key
  by (simp add: analyze_def sample_request_def analyze_try_def)

lemma catch_service_unavailable:
  "analyze_catch configured_env service_unavailable =
     Some \<lparr>code = 503, body = ErrorBody ''The model is overloaded.''\<rparr>"
  by (simp add: analyze_catch_def send_error_def bodyless_def invalid_key_def rate_limited_def catch_status_def
      error_status_def service_unavailable_def error_message_def toLowerCase_def
      toLowerCase_char_def message_or_default_def)

lemma catch_status_in_message:
  "analyze_catch configured_env status_in_message =
     Some \<lparr>code = 500, body = ErrorBody ''got status: 429 Too Many Requests''\<rparr>"
  by (simp add: analyze_catch_def send_error_def bodyless_def invalid_key_def rate_limited_def catch_status_def
      error_status_def response_status_def status_in_message_def error_message_def
      toLowerCase_def toLowerCase_char_def message_or_default_def)

lemma catch_too_many_requests:
  "analyze_catch configured_env too_many_requests =
     Some \<lparr>code = 429, body = ErrorBody rate_limit_message\<rparr>"
  by (simp add: analyze_catch_def send_error_def bodyless_def invalid_key_def rate_limited_def catch_status_def
      error_status_def too_many_requests_def)

lemma catch_key_rejected:
  "analyze_catch configured_env key_rejected =
     Some \<lparr>code = 400,
      body = ErrorBody ''The Gemini API key is invalid. Current key source: COGAPI3. Please update your environment variables in AI Studio.''\<rparr>"
  by (simp add: analyze_catch_def send_error_def bodyless_def invalid_key_def catch_status_def error_status_def
      key_rejected_def error_message_def toLowerCase_def toLowerCase_char_def
      invalid_key_message_def keySource_def configured_env_def)

text \<open>
  Claim C5, as the code has it. POST /api/analyze answers 400 when the dataset is missing
  (or falsy), and 500 when neither \<open>COGAPI3\<close> nor \<open>GEMINI_API_KEY\<close> is set. When the
  retried call of the service ends with an error \<open>e\<close> (at once for a terminal error,
  after the fifth attempt for transient ones), the answer is 400 with a message naming
  the source of the credential when \<open>e\<close> has status 400 and a message containing
  \<open>api key not valid\<close>; otherwise 429 with the rate limit message when \<open>e\<close> has status
  429 or a message containing \<open>rate exceeded\<close> or \<open>quota\<close>; otherwise the status of
  \<open>e\<close> (500 when it has none) with the message of \<open>e\<close>. The client shows its
  \<open>high demand\<close> message for every answer of status 429.
\<close>

theorem analyze_status_mapping:
  "(\<not> truthy_opt (dataset req) \<longrightarrow>
      analyze rt ev req fn = Some \<lparr>code = 400, body = ErrorBody ''Dataset is required''\<rparr>) \<and>
   (truthy_opt (dataset req) \<and>
    (COGAPI3 ev = None \<or> COGAPI3 ev = Some []) \<and>
    (GEMINI_API_KEY ev = None \<or> GEMINI_API_KEY ev = Some []) \<longrightarrow>
      analyze rt ev req fn =
        Some \<lparr>code = 500,
              body = ErrorBody ''Gemini API key is not configured. Please set COGAPI3 or GEMINI_API_KEY in the environment variables.''\<rparr>) \<and>
   (dataset req = Some (JArr rows) \<and> \<not> apiKey_missing ev \<and>
    outcome (withRetry_default fn) = Inl (Some e) \<longrightarrow>
      analyze rt ev req fn =
        (if catch_status e = 400 \<and> str_includes (error_message e) ''api key not valid''
         then Some \<lparr>code = 400,
                     body = ErrorBody (''The Gemini API key is invalid. Current key source: '' @
                              keySource ev @
                              ''. Please update your environment variables in AI Studio.'')\<rparr>
         else if catch_status e = 429 \<or> str_includes (error_message e) ''rate exceeded'' \<or>
                 str_includes (error_message e) ''quota''
         then Some \<lparr>code = 429, body = ErrorBody rate_limit_message\<rparr>
         else if catch_status e < 100 \<or> 999 < catch_status e then None
         else if bodyless (catch_status e) then Some \<lparr>code = catch_status e, body = NoBody\<rparr>
         else Some \<lparr>code = catch_status e, body = ErrorBody (message_or_default e)\<rparr>)) \<and>
   ((\<forall>k < 5. fn k = Inl (errs k) \<and> is_transient (errs k)) \<longrightarrow>
      outcome (withRetry_default fn) = Inl (Some (errs 4))) \<and>
   (fn 0 = Inl e \<and> \<not> is_transient e \<longrightarrow> outcome (withRetry_default fn) = Inl (Some e)) \<and>
   (code resp = 429 \<and> data st \<noteq> [] \<longrightarrow>
      error (runAnalysis st (sent resp) saved f) = Some high_demand_message)"
proof -
  have 1: "\<not> truthy_opt (dataset req) \<longrightarrow>
      analyze rt ev req fn = Some \<lparr>code = 400, body = ErrorBody ''Dataset is required''\<rparr>"
    by (simp add: analyze_def truthy_opt_def split: option.splits)
  have 2: "truthy_opt (dataset req) \<and>
    (COGAPI3 ev = None \<or> COGAPI3 ev = Some []) \<and>
    (GEMINI_API_KEY ev = None \<or> GEMINI_API_KEY ev = Some []) \<longrightarrow>
      analyze rt ev req fn =
        Some \<lparr>code = 500,
              body = ErrorBody ''Gemini API key is not configured. Please set COGAPI3 or GEMINI_API_KEY in the environment variables.''\<rparr>"
    using no_credential_missing[of ev]
    by (auto simp: analyze_def truthy_opt_def split: option.splits)
  have 3: "dataset req = Some (JArr rows) \<and> \<not> apiKey_missing ev \<and>
    outcome (withRetry_default fn) = Inl (Some e) \<longrightarrow>
      analyze rt ev req fn = analyze_catch ev e"
    using analyze_try_thrown[of fn e rt rows] by (auto simp: analyze_def)
  have 4: "(\<forall>k < 5. fn k = Inl (errs k) \<and> is_transient (errs k)) \<longrightarrow>
      outcome (withRetry_default fn) = Inl (Some (errs 4))"
    using withRetry_exhausted[of 5 fn errs 2000] by (simp add: withRetry_default_def)
  have 5: "fn 0 = Inl e \<and> \<not> is_transient e \<longrightarrow> outcome (withRetry_default fn) = Inl (Some e)"
    using withRetry_first_terminal[of fn e 5 2000] by (simp add: withRetry_default_def)
  have 6: "code resp = 429 \<and> data st \<noteq> [] \<longrightarrow>
      error (runAnalysis st (sent resp) saved f) = Some high_demand_message"
    using high_demand_shown by blast
  show ?thesis
    using 1 2 3 4 5 6
    unfolding analyze_catch_def invalid_key_def rate_limited_def invalid_key_message_def
      send_error_def
    by blast
qed

theorem analyze_status_mapping_witness:
  "\<not> truthy_opt (dataset empty_request) \<and>
   analyze literals_runtime configured_env empty_request (always_throws too_many_requests) =
     Some \<lparr>code = 400, body = ErrorBody ''Dataset is required''\<rparr> \<and>
   truthy_opt (dataset sample_request) \<and>
   COGAPI3 unconfigured_env = None \<and> GEMINI_API_KEY unconfigured_env = Some [] \<and>
   analyze literals_runtime unconfigured_env sample_request (always_throws too_many_requests) =
     Some \<lparr>code = 500,
           body = ErrorBody ''Gemini API key is not configured. Please set COGAPI3 or GEMINI_API_KEY in the environment variables.''\<rparr> \<and>
   \<not> apiKey_missing configured_env \<and>
   outcome (withRetry_default (always_throws too_many_requests)) = Inl (Some too_many_requests) \<and>
   analyze literals_runtime configured_env sample_request (always_throws too_many_requests) =
     Some \<lparr>code = 429, body = ErrorBody rate_limit_message\<rparr> \<and>
   always_throws key_rejected 0 = Inl key_rejected \<and> \<not> is_transient key_rejected \<and>
   analyze literals_runtime configured_env sample_request (always_throws key_rejected) =
     Some \<lparr>code = 400,
           body = ErrorBody ''The Gemini API key is invalid. Current key source: COGAPI3. Please update your environment variables in AI Studio.''\<rparr> \<and>
   data signed_in_client \<noteq> [] \<and>
   error (runAnalysis signed_in_client (sent \<lparr>code = 429, body = ErrorBody rate_limit_message\<rparr>)
            empty_history empty_history) =
     Some high_demand_message"
proof -
  have a1: "\<not> truthy_opt (dataset empty_request)"
    by (simp add: empty_request_def truthy_opt_def)
  have b1: "COGAPI3 unconfigured_env = None" "GEMINI_API_KEY unconfigured_env = Some []"
    by (simp_all add: unconfigured_env_def)
  have c1: "outcome (withRetry_default (always_throws too_many_requests)) =
              Inl (Some too_many_requests)"
    by (simp add: always_throws_exhausts too_many_requests_transient)
  have d1: "always_throws key_rejected 0 = Inl key_rejected"
    by (simp add: always_throws_def)
  have e1: "data signed_in_client \<noteq> []"
    by (simp add: signed_in_client_def)
  have e2: "code \<lparr>code = 429, body = ErrorBody rate_limit_message\<rparr> = 429"
    by simp
  note A = analyze_status_mapping[where req = empty_request and rt = literals_runtime
      and ev = configured_env and fn = "always_throws too_many_requests"]
  note B = analyze_status_mapping[where req = sample_request and rt = literals_runtime
      and ev = unconfigured_env and fn = "always_throws too_many_requests"]
  note C = analyze_status_mapping[where req = sample_request and rt = literals_runtime
      and ev = configured_env and fn = "always_throws too_many_requests"
      and e = too_many_requests
      and rows = "[JObj [(''region'', JStr ''EU''), (''sales'', JNum 7)]]"]
  note D = analyze_status_mapping[where req = sample_request and rt = literals_runtime
      and ev = configured_env and fn = "always_throws key_rejected" and e = key_rejected
      and rows = "[JObj [(''region'', JStr ''EU''), (''sales'', JNum 7)]]"
      and st = signed_in_client
      and resp = "\<lparr>code = 429, body = ErrorBody rate_limit_message\<rparr>"
      and saved = empty_history and f = empty_history]
  have r1: "analyze literals_runtime configured_env empty_request
              (always_throws too_many_requests) =
            Some \<lparr>code = 400, body = ErrorBody ''Dataset is required''\<rparr>"
    using A a1 by blast
  have r2: "analyze literals_runtime unconfigured_env sample_request
              (always_throws too_many_requests) =
            Some \<lparr>code = 500,
                  body = ErrorBody ''Gemini API key is not configured. Please set COGAPI3 or GEMINI_API_KEY in the environment variables.''\<rparr>"
    using B b1 sample_request_guards(2) by blast
  have r3: "analyze literals_runtime configured_env sample_request
              (always_throws too_many_requests) =
            analyze_catch configured_env too_many_requests"
    using C c1 sample_request_guards(1) configured_env_has_key
    unfolding analyze_catch_def invalid_key_def rate_limited_def invalid_key_message_def
      send_error_def
    by blast
  have d2: "outcome (withRetry_default (always_throws key_rejected)) = Inl (Some key_rejected)"
    using D d1 key_rejected_terminal by blast
  have r4: "analyze literals_runtime configured_env sample_request
              (always_throws key_rejected) =
            analyze_catch configured_env key_rejected"
    using D d2 sample_request_guards(1) configured_env_has_key
    unfolding analyze_catch_def invalid_key_def rate_limited_def invalid_key_message_def
      send_error_def
    by blast
  have r5: "error (runAnalysis signed_in_client
              (sent \<lparr>code = 429, body = ErrorBody rate_limit_message\<rparr>)
              empty_history empty_history) = Some high_demand_message"
    using D e1 e2 by blast
  show ?thesis
    using a1 r1 sample_request_guards(2) b1 r2 configured_env_has_key c1 r3 d1
      key_rejected_terminal r4 e1 r5
    by (simp add: catch_too_many_requests catch_key_rejected)
qed

text \<open>
  Claim C5 as stated fails: the exhaustion of the retries is not always reported as 429.
  An error of status 503, and an error whose message (not its status) carries 429, are
  both retried as transient; after the fifth attempt the first is answered with status
  503 and the second with status 500, each with the message of the error, which the
  client shows as it is.
\<close>

theorem transient_exhaustion_not_reported_as_429:
  "is_transient service_unavailable \<and>
   calls (withRetry_default (always_throws service_unavailable)) = 5 \<and>
   analyze literals_runtime configured_env sample_request (always_throws service_unavailable) =
     Some \<lparr>code = 503, body = ErrorBody ''The model is overloaded.''\<rparr> \<and>
   is_transient status_in_message \<and>
   calls (withRetry_default (always_throws status_in_message)) = 5 \<and>
   analyze literals_runtime configured_env sample_request (always_throws status_in_message) =
     Some \<lparr>code = 500, body = ErrorBody ''got status: 429 Too Many Requests''\<rparr> \<and>
   error (runAnalysis signed_in_client
            (sent \<lparr>code = 503, body = ErrorBody ''The model is overloaded.''\<rparr>)
            empty_history empty_history) =
     Some ''The model is overloaded.''"
proof -
  have c: "error (runAnalysis signed_in_client
            (sent \<lparr>code = 503, body = ErrorBody ''The model is overloaded.''\<rparr>)
            empty_history empty_history) =
     Some ''The model is overloaded.''"
    by (simp add: runAnalysis_def signed_in_client_def initial_client_def sent_def
        analysis_received_def ok_def not_ok_error_def analysis_failed_def new_Error_def
        toLowerCase_def toLowerCase_char_def)
  show ?thesis
    using service_unavailable_transient status_in_message_transient c
    by (simp add: always_throws_exhausts analyze_sample_thrown catch_service_unavailable
        catch_status_in_message)
qed

end
